theory Spec2Isabelle
  imports Complex_Main "HOL-Library.AList"
begin

section \<open>Data model of tl\_detector.py\<close>

text \<open>
  The traffic-light detector node of the capstone project. Python floats are idealised
  as \<^typ>\<open>real\<close>, Python's unbounded integers are \<^typ>\<open>int\<close>, every handler that
  runs under the node's mutex is one atomic function on the detector's fields, and an
  exception raised by the interpreter is a value of type \<open>error\<close>.
\<close>

text \<open>
  Modelled from the spec: the message constants \<open>TrafficLight.RED\<close>, \<open>YELLOW\<close>,
  \<open>GREEN\<close> and \<open>UNKNOWN\<close> of styx\_msgs, whose declaration is not part of the source
  file; the spec names exactly these four raw states.
\<close>

datatype light = RED | YELLOW | GREEN | UNKNOWN

datatype error = IndexError | KeyError | TypeError | UnboundLocalError

definition STATE_COUNT_THRESHOLD :: int where
  "STATE_COUNT_THRESHOLD = 3"

datatype 'a Point = Point (point_x: 'a) (point_y: 'a)

datatype LightData = LightData (ld_index: int) (ld_state: light)

text \<open>The message published on \<open>/traffic_waypoint\<close>: stop-line index and light state.\<close>

datatype TrafficWaypoint = TrafficWaypoint int light

text \<open>One entry of a \<open>TrafficLightArray\<close>: the light's position and reported state.\<close>

record light_msg =
  light_position :: "real Point"
  light_state :: light

definition distance :: "real Point \<Rightarrow> real Point \<Rightarrow> real" where
  "distance point1 point2 =
     sqrt ((point_x point1 - point_x point2) ^ 2 + (point_y point1 - point_y point2) ^ 2)"

text \<open>Python's \<open>int(x)\<close> on a float truncates towards zero.\<close>

definition py_int :: "real \<Rightarrow> int" where
  "py_int r = (if 0 \<le> r then \<lfloor>r\<rfloor> else \<lceil>r\<rceil>)"

definition get_light_point :: "light_msg \<Rightarrow> int Point" where
  "get_light_point light =
     Point (py_int (point_x (light_position light))) (py_int (point_y (light_position light)))"

text \<open>Python list indexing: a negative index counts from the end, out of range raises.\<close>

definition py_index :: "'a list \<Rightarrow> int \<Rightarrow> error + 'a" where
  "py_index xs i =
     (if 0 \<le> i \<and> i < int (length xs) then Inr (xs ! nat i)
      else if i < 0 \<and> - int (length xs) \<le> i then Inr (xs ! nat (int (length xs) + i))
      else Inl IndexError)"

text \<open>\<open>range(a, b)\<close> as the list of its values.\<close>

definition py_range :: "int \<Rightarrow> int \<Rightarrow> int list" where
  "py_range a b = [a..b - 1]"

text \<open>\<open>sys.maxint\<close> of a 64-bit CPython 2 interpreter.\<close>

definition sys_maxint :: real where
  "sys_maxint = 9223372036854775807"

record Detector =
  state :: light
  state_count :: int
  last_stop_line :: "int option"
  shared_car_index :: "int option"
  shared_waypoints :: "real Point list option"
  shared_stop_lines :: "int list option"

record 'img ImageDetector = Detector +
  shared_camera_image :: "'img option"

record DummyDetector = Detector +
  shared_traffic_lights :: "(int Point \<times> LightData) list option"
  tl_map :: "(int \<times> int Point) list"

text \<open>The fields as the constructors \<open>__init__\<close> leave them.\<close>

definition ImageDetector_init :: "'img ImageDetector" where
  "ImageDetector_init =
     \<lparr>state = UNKNOWN, state_count = 0, last_stop_line = None, shared_car_index = None,
      shared_waypoints = None, shared_stop_lines = None, shared_camera_image = None\<rparr>"

definition DummyDetector_init :: DummyDetector where
  "DummyDetector_init =
     \<lparr>state = UNKNOWN, state_count = 0, last_stop_line = None, shared_car_index = None,
      shared_waypoints = None, shared_stop_lines = None, shared_traffic_lights = None,
      tl_map = []\<rparr>"

section \<open>Detector.get\_stop\_line\<close>

text \<open>The \<open>for index in self.shared_stop_lines\<close> loop: the first element above the car.\<close>

fun first_above :: "int list \<Rightarrow> int \<Rightarrow> int option" where
  "first_above [] car = None"
| "first_above (index # rest) car = (if index > car then Some index else first_above rest car)"

definition get_stop_line :: "'a Detector_scheme \<Rightarrow> error + int option" where
  "get_stop_line self =
     (case shared_car_index self of
        None \<Rightarrow> Inr None
      | Some car \<Rightarrow>
          (case shared_stop_lines self of
             None \<Rightarrow> Inl TypeError
           | Some stop_lines \<Rightarrow> Inr (first_above stop_lines car)))"

section \<open>Detector.loop\<close>

text \<open>
  Lines 66 to 76 of one iteration, once a stop line and a raw state are at hand: the
  debounce decision, the publication (returned as an optional message) and the increment
  of the counter.
\<close>

definition loop_body ::
  "'a Detector_scheme \<Rightarrow> int \<Rightarrow> light \<Rightarrow> 'a Detector_scheme \<times> TrafficWaypoint option" where
  "loop_body self stop_line st =
     (let (self1, pub) =
        (if state self \<noteq> st then
           (self\<lparr>state_count := 0, state := st\<rparr>, None)
         else if state_count self = STATE_COUNT_THRESHOLD
                 \<or> state_count self > STATE_COUNT_THRESHOLD
                   \<and> last_stop_line self \<noteq> Some stop_line then
           (self\<lparr>last_stop_line := Some stop_line\<rparr>, Some (TrafficWaypoint stop_line st))
         else (self, None))
      in (self1\<lparr>state_count := state_count self1 + 1\<rparr>, pub))"

text \<open>
  One whole iteration of the loop. The raw state comes from the subclass's
  \<open>get_traffic_light_state\<close>, passed as \<open>gtls\<close>; it is only asked when a stop line is
  ahead. An exception leaves the loop.
\<close>

definition loop_iteration ::
  "('a Detector_scheme \<Rightarrow> error + light) \<Rightarrow> 'a Detector_scheme
     \<Rightarrow> error + ('a Detector_scheme \<times> TrafficWaypoint option)" where
  "loop_iteration gtls self =
     (case get_stop_line self of
        Inl e \<Rightarrow> Inl e
      | Inr None \<Rightarrow> Inr (self, None)
      | Inr (Some stop_line) \<Rightarrow>
          (case gtls self of
             Inl e \<Rightarrow> Inl e
           | Inr st \<Rightarrow> Inr (loop_body self stop_line st)))"

text \<open>
  The loop body run over a sequence of ticks, each given as the stop line ahead and the
  raw state at that tick; the result lists what each tick published.
\<close>

fun run_ticks ::
  "'a Detector_scheme \<Rightarrow> (int \<times> light) list \<Rightarrow> 'a Detector_scheme \<times> TrafficWaypoint option list" where
  "run_ticks self [] = (self, [])"
| "run_ticks self ((stop_line, st) # ticks) =
     (let (self1, pub) = loop_body self stop_line st;
          (self2, pubs) = run_ticks self1 ticks
      in (self2, pub # pubs))"

section \<open>Detector.get\_closest\_waypoint\<close>

text \<open>
  The loop \<open>for i in range(len(self.shared_waypoints))\<close>: \<open>i\<close> is the index of the
  waypoint at the head of the list still to be visited, \<open>closest_index\<close> is unbound
  (\<open>None\<close>) until a first distance is below \<open>closest_dist\<close>.
\<close>

fun closest_scan ::
  "real Point list \<Rightarrow> real Point \<Rightarrow> int \<Rightarrow> real \<Rightarrow> int option \<Rightarrow> int option" where
  "closest_scan [] point i closest_dist closest_index = closest_index"
| "closest_scan (w # ws) point i closest_dist closest_index =
     (let dist = distance w point
      in if dist < closest_dist then closest_scan ws point (i + 1) dist (Some i)
         else closest_scan ws point (i + 1) closest_dist closest_index)"

text \<open>
  Without waypoints the function logs an error and returns \<open>-1\<close>. When no distance is
  below \<open>sys.maxint\<close> the final \<open>return closest_index\<close> reads an unbound local.
\<close>

definition get_closest_waypoint :: "'a Detector_scheme \<Rightarrow> real Point \<Rightarrow> error + int" where
  "get_closest_waypoint self point =
     (case shared_waypoints self of
        None \<Rightarrow> Inr (- 1)
      | Some waypoints \<Rightarrow>
          if length waypoints = 0 then Inr (- 1)
          else (case closest_scan waypoints point 0 sys_maxint None of
                  None \<Rightarrow> Inl UnboundLocalError
                | Some closest_index \<Rightarrow> Inr closest_index))"

section \<open>Detector.waypoints\_cb\<close>

text \<open>
  The loop over the configured stop lines appends to \<open>self.shared_stop_lines\<close>; an
  exception leaves the list as far as it was built.
\<close>

fun bind_stop_lines ::
  "'a Detector_scheme \<Rightarrow> real Point list \<Rightarrow> 'a Detector_scheme \<times> error option" where
  "bind_stop_lines self [] = (self, None)"
| "bind_stop_lines self (position # rest) =
     (case get_closest_waypoint self position of
        Inl e \<Rightarrow> (self, Some e)
      | Inr index \<Rightarrow>
          bind_stop_lines
            (self\<lparr>shared_stop_lines := map_option (\<lambda>l. l @ [index]) (shared_stop_lines self)\<rparr>)
            rest)"

text \<open>
  The handler of a route message. \<open>waypoints\<close> are the positions of the message,
  \<open>stop_lines\<close> is the list \<open>stop_line_positions\<close> read from the configuration at each
  call. The result is the detector after the call and the exception raised, if any.
\<close>

definition waypoints_cb ::
  "'a Detector_scheme \<Rightarrow> real Point list \<Rightarrow> real Point list
     \<Rightarrow> 'a Detector_scheme \<times> error option" where
  "waypoints_cb self waypoints stop_lines =
     (let self1 = self\<lparr>shared_car_index := None\<rparr>
      in if length stop_lines = 0 then (self1, None)
         else
           (let self2 = self1\<lparr>shared_waypoints :=
                          Some (map (\<lambda>position. Point (point_x position) (point_y position)) waypoints)\<rparr>;
                self3 = self2\<lparr>shared_stop_lines := Some []\<rparr>
            in (case bind_stop_lines self3 stop_lines of
                  (self4, Some e) \<Rightarrow> (self4, Some e)
                | (self4, None) \<Rightarrow>
                    (self4\<lparr>shared_stop_lines := map_option sort (shared_stop_lines self4)\<rparr>, None))))"

section \<open>Detector.pose\_cb\<close>

text \<open>
  The index the scan starts from: 0 when the car index is undefined or above the last
  stop line, the stored index otherwise. \<open>self.shared_stop_lines[-1]\<close> is only evaluated
  when the car index is defined.
\<close>

definition pose_start :: "'a Detector_scheme \<Rightarrow> error + int" where
  "pose_start self =
     (case shared_car_index self of
        None \<Rightarrow> Inr 0
      | Some car \<Rightarrow>
          (case shared_stop_lines self of
             None \<Rightarrow> Inl TypeError
           | Some stop_lines \<Rightarrow>
               (case py_index stop_lines (- 1) of
                  Inl e \<Rightarrow> Inl e
                | Inr last_line \<Rightarrow> Inr (if car > last_line then 0 else car))))"

text \<open>
  The \<open>for i in range(...)\<close> loop of \<open>pose_cb\<close> over the indices still to visit; the
  result is the car index when the loop ends and the exception raised, if any.
\<close>

fun pose_scan ::
  "real Point \<Rightarrow> real Point list \<Rightarrow> int list \<Rightarrow> real \<Rightarrow> int \<Rightarrow> int \<times> error option" where
  "pose_scan position waypoints [] current_dist car = (car, None)"
| "pose_scan position waypoints (i # rest) current_dist car =
     (case py_index waypoints i of
        Inl e \<Rightarrow> (car, Some e)
      | Inr w \<Rightarrow>
          (let dist = distance position w
           in if dist > current_dist then (car, None)
              else pose_scan position waypoints rest dist i))"

definition pose_cb ::
  "'a Detector_scheme \<Rightarrow> real Point \<Rightarrow> 'a Detector_scheme \<times> error option" where
  "pose_cb self position =
     (case shared_waypoints self of
        None \<Rightarrow> (self, None)
      | Some waypoints \<Rightarrow>
          (case pose_start self of
             Inl e \<Rightarrow> (self, Some e)
           | Inr start \<Rightarrow>
               (let self1 = self\<lparr>shared_car_index := Some start\<rparr>
                in (case py_index waypoints start of
                      Inl e \<Rightarrow> (self1, Some e)
                    | Inr w \<Rightarrow>
                        (let (car, err) =
                               pose_scan position waypoints
                                 (py_range (start + 1) (int (length waypoints)))
                                 (distance position w) start
                         in (self1\<lparr>shared_car_index := Some car\<rparr>, err))))))"

section \<open>ImageDetector\<close>

definition image_cb :: "'img ImageDetector \<Rightarrow> 'img \<Rightarrow> 'img ImageDetector" where
  "image_cb self msg = self\<lparr>shared_camera_image := Some msg\<rparr>"

text \<open>
  The decoding of the frame and the classifier are external; \<open>classify\<close> stands for both.
\<close>

definition image_get_traffic_light_state ::
  "('img \<Rightarrow> light) \<Rightarrow> 'img ImageDetector \<Rightarrow> error + light" where
  "image_get_traffic_light_state classify self =
     (case shared_camera_image self of
        None \<Rightarrow> Inr UNKNOWN
      | Some camera_image \<Rightarrow> Inr (classify camera_image))"

section \<open>DummyDetector\<close>

text \<open>
  The two dictionaries are association lists with \<open>AList.update\<close> as assignment and
  \<open>map_of\<close> as lookup. The first branch of \<open>traffic_cb\<close> binds every light of the
  message, the second one replaces the state of every light of the message.
\<close>

fun traffic_bind ::
  "DummyDetector \<Rightarrow> light_msg list \<Rightarrow> DummyDetector \<times> error option" where
  "traffic_bind self [] = (self, None)"
| "traffic_bind self (light # rest) =
     (let point = get_light_point light
      in (case get_closest_waypoint self (light_position light) of
            Inl e \<Rightarrow> (self, Some e)
          | Inr index \<Rightarrow>
              traffic_bind
                (self\<lparr>shared_traffic_lights :=
                         map_option (AList.update point (LightData index (light_state light)))
                           (shared_traffic_lights self),
                       tl_map := AList.update index point (tl_map self)\<rparr>)
                rest))"

fun traffic_update ::
  "(int Point \<times> LightData) list \<Rightarrow> light_msg list
     \<Rightarrow> (int Point \<times> LightData) list \<times> error option" where
  "traffic_update lights [] = (lights, None)"
| "traffic_update lights (light # rest) =
     (let point = get_light_point light
      in (case map_of lights point of
            None \<Rightarrow> (lights, Some KeyError)
          | Some data \<Rightarrow>
              traffic_update
                (AList.update point (LightData (ld_index data) (light_state light)) lights) rest))"

definition traffic_cb :: "DummyDetector \<Rightarrow> light_msg list \<Rightarrow> DummyDetector \<times> error option" where
  "traffic_cb self lights =
     (case shared_waypoints self of
        None \<Rightarrow> (self, None)
      | Some waypoints \<Rightarrow>
          (case shared_traffic_lights self of
             None \<Rightarrow> traffic_bind (self\<lparr>shared_traffic_lights := Some []\<rparr>) lights
           | Some bound \<Rightarrow>
               (let (bound1, err) = traffic_update bound lights
                in (self\<lparr>shared_traffic_lights := Some bound1\<rparr>, err))))"

text \<open>
  The comparison \<open>index > self.shared_car_index\<close>: in Python 2 every integer is greater
  than \<open>None\<close>.
\<close>

definition py2_gt :: "int \<Rightarrow> int option \<Rightarrow> bool" where
  "py2_gt index car = (case car of None \<Rightarrow> True | Some c \<Rightarrow> index > c)"

fun first_light_above :: "int list \<Rightarrow> int option \<Rightarrow> int option" where
  "first_light_above [] car = None"
| "first_light_above (index # rest) car =
     (if py2_gt index car then Some index else first_light_above rest car)"

definition dummy_get_traffic_light_state :: "DummyDetector \<Rightarrow> error + light" where
  "dummy_get_traffic_light_state self =
     (case shared_traffic_lights self of
        None \<Rightarrow> Inr UNKNOWN
      | Some lights \<Rightarrow>
          (case first_light_above (sort (map fst (tl_map self))) (shared_car_index self) of
             None \<Rightarrow> Inr UNKNOWN
           | Some tl_index \<Rightarrow>
               (case shared_waypoints self of
                  None \<Rightarrow> Inl TypeError
                | Some waypoints \<Rightarrow>
                    (case py_index waypoints tl_index of
                       Inl e \<Rightarrow> Inl e
                     | Inr light_waypoint \<Rightarrow>
                         (case shared_car_index self of
                            None \<Rightarrow> Inl TypeError
                          | Some car \<Rightarrow>
                              (case py_index waypoints car of
                                 Inl e \<Rightarrow> Inl e
                               | Inr car_waypoint \<Rightarrow>
                                   if distance light_waypoint car_waypoint > 150 then Inr UNKNOWN
                                   else
                                     (case map_of (tl_map self) tl_index of
                                        None \<Rightarrow> Inl KeyError
                                      | Some point \<Rightarrow>
                                          (case map_of lights point of
                                             None \<Rightarrow> Inl KeyError
                                           | Some data \<Rightarrow> Inr (ld_state data)))))))))"

section \<open>The debouncer\<close>

text \<open>
  Once a state has been published for a stop line and the counter is past the threshold,
  further ticks with the same state and stop line publish nothing.
\<close>

lemma run_ticks_quiet:
  "state self = st \<Longrightarrow> state_count self > 3 \<Longrightarrow> last_stop_line self = Some stop_line \<Longrightarrow>
   snd (run_ticks self (replicate n (stop_line, st))) = replicate n None"
proof (induction n arbitrary: self)
  case 0
  then show ?case by simp
next
  case (Suc n)
  let ?s = "self\<lparr>state_count := state_count self + 1\<rparr>"
  have step: "loop_body self stop_line st = (?s, None)"
    using Suc.prems by (simp add: loop_body_def STATE_COUNT_THRESHOLD_def)
  have "snd (run_ticks ?s (replicate n (stop_line, st))) = replicate n None"
    using Suc.prems by (intro Suc.IH) simp_all
  then show ?case using step by (simp add: split_beta)
qed

text \<open>
  While the counter is at most the threshold, the only publication of a run of identical
  ticks is at the tick that finds the counter equal to the threshold.
\<close>

lemma run_ticks_counting:
  "state self = st \<Longrightarrow> 0 \<le> state_count self \<Longrightarrow> state_count self \<le> 3 \<Longrightarrow>
   snd (run_ticks self (replicate n (stop_line, st))) =
     map (\<lambda>k. if int k = 3 - state_count self then Some (TrafficWaypoint stop_line st) else None)
       [0..<n]"
proof (induction n arbitrary: self)
  case 0
  then show ?case by simp
next
  case (Suc n)
  show ?case
  proof (cases "state_count self = 3")
    case True
    let ?s = "self\<lparr>last_stop_line := Some stop_line, state_count := state_count self + 1\<rparr>"
    have step: "loop_body self stop_line st = (?s, Some (TrafficWaypoint stop_line st))"
      using Suc.prems True by (simp add: loop_body_def STATE_COUNT_THRESHOLD_def)
    have "snd (run_ticks ?s (replicate n (stop_line, st))) = replicate n None"
      using Suc.prems True by (intro run_ticks_quiet) simp_all
    then show ?thesis using step True
      by (simp add: split_beta upt_rec[of 0 "Suc n"] map_Suc_upt[symmetric] comp_def
          map_replicate_const del: upt_Suc)
  next
    case False
    let ?s = "self\<lparr>state_count := state_count self + 1\<rparr>"
    have step: "loop_body self stop_line st = (?s, None)"
      using Suc.prems False by (simp add: loop_body_def STATE_COUNT_THRESHOLD_def)
    have "snd (run_ticks ?s (replicate n (stop_line, st))) =
       map (\<lambda>k. if int k = 3 - state_count ?s then Some (TrafficWaypoint stop_line st) else None)
         [0..<n]"
      using Suc.prems False by (intro Suc.IH) simp_all
    then show ?thesis using step False Suc.prems
      by (simp add: split_beta upt_rec[of 0 "Suc n"] map_Suc_upt[symmetric] comp_def
          del: upt_Suc)
  qed
qed

text \<open>
  C1 (as amended). For a fixed stop line and a raw state \<open>st\<close> that is new to the
  debouncer (the confirmed state differs, or the counter is still 0 as at process start),
  a run of \<open>n\<close> ticks with that raw state publishes the event exactly once, on the fourth
  tick (list position 3), and on no tick before or after it. The first tick leaves the
  counter at 1, so the counter is found equal to the threshold 3 on the fourth tick.
\<close>

theorem debounce_publishes_on_fourth_tick_only:
  assumes "state self \<noteq> st \<or> state_count self = 0"
  shows "snd (run_ticks self (replicate n (stop_line, st))) =
           map (\<lambda>k. if k = 3 then Some (TrafficWaypoint stop_line st) else None) [0..<n]"
proof (cases n)
  case 0
  then show ?thesis by simp
next
  case (Suc m)
  let ?s = "self\<lparr>state_count := 1, state := st\<rparr>"
  have step: "loop_body self stop_line st = (?s, None)"
    using assms by (cases "state self = st") (simp_all add: loop_body_def STATE_COUNT_THRESHOLD_def)
  have "snd (run_ticks ?s (replicate m (stop_line, st))) =
      map (\<lambda>k. if int k = 3 - state_count ?s then Some (TrafficWaypoint stop_line st) else None)
        [0..<m]"
    by (intro run_ticks_counting) simp_all
  then show ?thesis using step Suc
    by (simp add: split_beta upt_rec[of 0 "Suc m"] map_Suc_upt[symmetric] comp_def del: upt_Suc)
qed

theorem debounce_publishes_on_fourth_tick_only_witness:
  "state_count DummyDetector_init = 0 \<and>
   snd (run_ticks DummyDetector_init (replicate 6 (2, RED))) =
     [None, None, None, Some (TrafficWaypoint 2 RED), None, None]"
  using debounce_publishes_on_fourth_tick_only [of DummyDetector_init RED 6 2]
  by (simp add: DummyDetector_init_def upt_rec)

text \<open>
  C1 as stated fails: from the initial state, with stop line 2 ahead and RED on every
  tick, the third tick publishes nothing and the fourth tick publishes \<open>(2, RED)\<close>.
\<close>

theorem no_publication_on_third_tick:
  "snd (run_ticks DummyDetector_init [(2, RED), (2, RED), (2, RED), (2, RED)]) ! 2 = None \<and>
   snd (run_ticks DummyDetector_init [(2, RED), (2, RED), (2, RED), (2, RED)]) ! 3 =
     Some (TrafficWaypoint 2 RED)"
  by (simp add: DummyDetector_init_def loop_body_def STATE_COUNT_THRESHOLD_def)

text \<open>
  C2. The step of the debouncer for a stop line and a raw state \<open>st\<close>. If \<open>st\<close> differs
  from the confirmed state, the confirmed state becomes \<open>st\<close> and the counter restarts
  (0, then the increment). Otherwise, if the counter equals 3, or exceeds 3 while the stop
  line differs from the last published one, the event is published and the stop line is
  recorded; otherwise nothing is published. The counter is incremented in every case.
  So a changed stop line with the counter above the threshold is published at once.
\<close>

theorem loop_body_cases:
  "(state self \<noteq> st \<longrightarrow>
      loop_body self stop_line st = (self\<lparr>state_count := 1, state := st\<rparr>, None)) \<and>
   (state self = st \<and>
      (state_count self = 3 \<or> state_count self > 3 \<and> last_stop_line self \<noteq> Some stop_line) \<longrightarrow>
      loop_body self stop_line st =
        (self\<lparr>last_stop_line := Some stop_line, state_count := state_count self + 1\<rparr>,
         Some (TrafficWaypoint stop_line (state self)))) \<and>
   (state self = st \<and>
      \<not> (state_count self = 3 \<or> state_count self > 3 \<and> last_stop_line self \<noteq> Some stop_line) \<longrightarrow>
      loop_body self stop_line st = (self\<lparr>state_count := state_count self + 1\<rparr>, None)) \<and>
   (state self = st \<and> state_count self > 3 \<and> last_stop_line self \<noteq> Some stop_line \<longrightarrow>
      snd (loop_body self stop_line st) = Some (TrafficWaypoint stop_line st))"
  by (simp add: loop_body_def STATE_COUNT_THRESHOLD_def)

theorem loop_body_cases_witness:
  "loop_body (DummyDetector_init\<lparr>state := GREEN, state_count := 7\<rparr>) 2 RED =
     (DummyDetector_init\<lparr>state := RED, state_count := 1\<rparr>, None) \<and>
   loop_body (DummyDetector_init\<lparr>state := RED, state_count := 3\<rparr>) 2 RED =
     (DummyDetector_init\<lparr>state := RED, state_count := 4, last_stop_line := Some 2\<rparr>,
      Some (TrafficWaypoint 2 RED)) \<and>
   loop_body (DummyDetector_init\<lparr>state := RED, state_count := 5, last_stop_line := Some 2\<rparr>) 2 RED =
     (DummyDetector_init\<lparr>state := RED, state_count := 6, last_stop_line := Some 2\<rparr>, None) \<and>
   snd (loop_body (DummyDetector_init\<lparr>state := RED, state_count := 5, last_stop_line := Some 2\<rparr>) 3 RED) =
     Some (TrafficWaypoint 3 RED)"
  using loop_body_cases [of "DummyDetector_init\<lparr>state := GREEN, state_count := 7\<rparr>" RED 2]
    loop_body_cases [of "DummyDetector_init\<lparr>state := RED, state_count := 3\<rparr>" RED 2]
    loop_body_cases [of "DummyDetector_init\<lparr>state := RED, state_count := 5, last_stop_line := Some 2\<rparr>" RED 2]
    loop_body_cases [of "DummyDetector_init\<lparr>state := RED, state_count := 5, last_stop_line := Some 2\<rparr>" RED 3]
  by (simp add: DummyDetector_init_def)

text \<open>
  C10. The confirmed state starts as UNKNOWN and UNKNOWN is debounced like any other
  state: from either initial detector, with a stop line ahead at every tick and UNKNOWN
  as raw state from the start, the counter reaches the threshold after three ticks and
  the fourth tick publishes its stop line with UNKNOWN.
\<close>

theorem unknown_state_is_published:
  "snd (run_ticks DummyDetector_init [(s1, UNKNOWN), (s2, UNKNOWN), (s3, UNKNOWN), (s4, UNKNOWN)]) =
     [None, None, None, Some (TrafficWaypoint s4 UNKNOWN)] \<and>
   snd (run_ticks (ImageDetector_init :: 'img ImageDetector)
          [(s1, UNKNOWN), (s2, UNKNOWN), (s3, UNKNOWN), (s4, UNKNOWN)]) =
     [None, None, None, Some (TrafficWaypoint s4 UNKNOWN)] \<and>
   state_count (fst (run_ticks DummyDetector_init [(s1, UNKNOWN), (s2, UNKNOWN), (s3, UNKNOWN)])) =
     STATE_COUNT_THRESHOLD"
  by (simp add: DummyDetector_init_def ImageDetector_init_def loop_body_def
      STATE_COUNT_THRESHOLD_def)

section \<open>The next stop line\<close>

lemma first_above_None_iff: "first_above xs v = None \<longleftrightarrow> (\<forall>i\<in>set xs. i \<le> v)"
  by (induction xs) auto

lemma first_above_sorted_Min:
  "sorted xs \<Longrightarrow> \<exists>i\<in>set xs. v < i \<Longrightarrow> first_above xs v = Some (Min {i \<in> set xs. v < i})"
proof (induction xs)
  case Nil
  then show ?case by simp
next
  case (Cons a xs)
  show ?case
  proof (cases "v < a")
    case True
    have "Min {i \<in> set (a # xs). v < i} = a"
      using Cons.prems(1) True by (intro Min_eqI) auto
    then show ?thesis using True by simp
  next
    case False
    then have eq: "{i \<in> set (a # xs). v < i} = {i \<in> set xs. v < i}" by auto
    have "first_above xs v = Some (Min {i \<in> set xs. v < i})"
      using Cons.prems False by (intro Cons.IH) auto
    then show ?thesis using False eq by simp
  qed
qed

text \<open>
  C3. With a defined car index \<open>v\<close> and the stored stop lines (a non-empty list in
  ascending order, as a completed route load leaves it), \<open>get_stop_line\<close> returns the
  least stored index above \<open>v\<close>, and returns none exactly when \<open>v\<close> is at or past the
  greatest stored index.
\<close>

theorem get_stop_line_next_after:
  assumes "shared_car_index self = Some v" and "shared_stop_lines self = Some stop_lines"
    and "sorted stop_lines" and "stop_lines \<noteq> []"
  shows "get_stop_line self =
           Inr (if Max (set stop_lines) \<le> v then None
                else Some (Min {i \<in> set stop_lines. v < i}))"
proof (cases "Max (set stop_lines) \<le> v")
  case True
  then have "\<forall>i\<in>set stop_lines. i \<le> v"
    using assms(4) by simp
  then have "first_above stop_lines v = None" by (simp add: first_above_None_iff)
  then show ?thesis using assms(1,2) True by (simp add: get_stop_line_def)
next
  case False
  then have "\<exists>i\<in>set stop_lines. v < i"
    using assms(4) by (simp add: not_le)
  with assms(3) have "first_above stop_lines v = Some (Min {i \<in> set stop_lines. v < i})"
    by (rule first_above_sorted_Min)
  then show ?thesis using assms(1,2) False by (simp add: get_stop_line_def)
qed

theorem get_stop_line_next_after_witness:
  "shared_car_index (DummyDetector_init\<lparr>shared_car_index := Some 3,
      shared_stop_lines := Some [2, 5, 9]\<rparr>) = Some 3 \<and>
   shared_stop_lines (DummyDetector_init\<lparr>shared_car_index := Some 3,
      shared_stop_lines := Some [2, 5, 9]\<rparr>) = Some [2, 5, 9] \<and>
   sorted [2, 5, 9 :: int] \<and> [2, 5, 9 :: int] \<noteq> [] \<and>
   get_stop_line (DummyDetector_init\<lparr>shared_car_index := Some 3,
      shared_stop_lines := Some [2, 5, 9]\<rparr>) = Inr (Some 5)"
proof -
  have m: "Min {i \<in> set [2, 5, 9 :: int]. 3 < i} = 5"
    by (intro Min_eqI) auto
  show ?thesis
    using get_stop_line_next_after [of "DummyDetector_init\<lparr>shared_car_index := Some 3,
      shared_stop_lines := Some [2, 5, 9]\<rparr>" 3 "[2, 5, 9]"] m
    by simp
qed

section \<open>Distances on concrete points\<close>

lemma distance_less_iff:
  "0 \<le> c \<Longrightarrow> distance p q < c \<longleftrightarrow> (point_x p - point_x q)\<^sup>2 + (point_y p - point_y q)\<^sup>2 < c\<^sup>2"
proof -
  assume c: "0 \<le> c"
  then have "sqrt (c\<^sup>2) = c" by simp
  then have "distance p q < c \<longleftrightarrow> sqrt ((point_x p - point_x q)\<^sup>2 + (point_y p - point_y q)\<^sup>2) < sqrt (c\<^sup>2)"
    by (simp add: distance_def)
  then show ?thesis by (simp only: real_sqrt_less_iff)
qed



section \<open>Route load: the stop-line indices\<close>

lemma get_closest_waypoint_cong:
  "shared_waypoints a = shared_waypoints b \<Longrightarrow> get_closest_waypoint a = get_closest_waypoint b"
  by (rule ext) (simp add: get_closest_waypoint_def)

lemma bind_stop_lines_result:
  "bind_stop_lines self ps = (self', None) \<Longrightarrow> shared_stop_lines self = Some acc \<Longrightarrow>
   \<exists>idxs. self' = self\<lparr>shared_stop_lines := Some (acc @ idxs)\<rparr> \<and>
          map (get_closest_waypoint self) ps = map Inr idxs"
proof (induction ps arbitrary: self acc)
  case Nil
  then show ?case by simp
next
  case (Cons p ps)
  from Cons.prems(1) obtain index where idx: "get_closest_waypoint self p = Inr index"
    by (cases "get_closest_waypoint self p") simp_all
  let ?s = "self\<lparr>shared_stop_lines := Some (acc @ [index])\<rparr>"
  have run: "bind_stop_lines ?s ps = (self', None)"
    using Cons.prems idx by simp
  have "shared_stop_lines ?s = Some (acc @ [index])" by simp
  from Cons.IH [OF run this] obtain idxs where
    a: "self' = ?s\<lparr>shared_stop_lines := Some ((acc @ [index]) @ idxs)\<rparr>" and
    b: "map (get_closest_waypoint ?s) ps = map Inr idxs"
    by blast
  have "self' = self\<lparr>shared_stop_lines := Some (acc @ (index # idxs))\<rparr>"
    using a by simp
  moreover have "map (get_closest_waypoint self) (p # ps) = map Inr (index # idxs)"
    using b idx get_closest_waypoint_cong [of ?s self] by simp
  ultimately show ?case by blast
qed

text \<open>
  C6 (as amended). A route load with a non-empty stop-line configuration that completes
  stores, in ascending order, the index of the closest waypoint of every configured
  position: one index per position, so the list is as long as the configuration and an
  index bound by two positions is stored twice.
\<close>

theorem waypoints_cb_stop_lines_sorted:
  assumes "stop_lines \<noteq> []" and "waypoints_cb self waypoints stop_lines = (self', None)"
  shows "\<exists>idxs. map (get_closest_waypoint (self\<lparr>shared_waypoints := Some waypoints\<rparr>)) stop_lines
                  = map Inr idxs \<and>
               shared_stop_lines self' = Some (sort idxs) \<and>
               sorted (sort idxs) \<and> length (sort idxs) = length stop_lines"
proof -
  let ?s3 = "self\<lparr>shared_car_index := None, shared_waypoints := Some waypoints,
                  shared_stop_lines := Some []\<rparr>"
  have wp: "map (\<lambda>position. Point (point_x position) (point_y position)) waypoints = waypoints"
    by (simp add: map_idI)
  obtain s4 e where b: "bind_stop_lines ?s3 stop_lines = (s4, e)"
    by (cases "bind_stop_lines ?s3 stop_lines")
  have e: "e = None" and s': "self' = s4\<lparr>shared_stop_lines := map_option sort (shared_stop_lines s4)\<rparr>"
    using assms b by (auto simp: waypoints_cb_def wp Let_def split: option.splits)
  have "shared_stop_lines ?s3 = Some []" by simp
  from bind_stop_lines_result [OF b [unfolded e] this] obtain idxs where
    a: "s4 = ?s3\<lparr>shared_stop_lines := Some ([] @ idxs)\<rparr>" and
    m: "map (get_closest_waypoint ?s3) stop_lines = map Inr idxs"
    by blast
  have "map (get_closest_waypoint (self\<lparr>shared_waypoints := Some waypoints\<rparr>)) stop_lines
          = map Inr idxs"
    using m get_closest_waypoint_cong [of ?s3 "self\<lparr>shared_waypoints := Some waypoints\<rparr>"] by simp
  moreover have "shared_stop_lines self' = Some (sort idxs)" using s' a by simp
  moreover have "length idxs = length stop_lines"
    using m by (metis length_map)
  ultimately show ?thesis by auto
qed

theorem waypoints_cb_stop_lines_sorted_witness:
  "[Point 25 0, Point 1 0, Point 2 0 :: real Point] \<noteq> [] \<and>
   waypoints_cb DummyDetector_init [Point 0 0, Point 10 0, Point 20 0, Point 30 0] [Point 25 0, Point 1 0, Point 2 0] =
     (DummyDetector_init\<lparr>shared_waypoints := Some [Point 0 0, Point 10 0, Point 20 0, Point 30 0],
        shared_stop_lines := Some [0, 0, 2]\<rparr>, None) \<and>
   sorted [0, 0, 2 :: int]"
proof -
  have r: "waypoints_cb DummyDetector_init [Point 0 0, Point 10 0, Point 20 0, Point 30 0] [Point 25 0, Point 1 0, Point 2 0] =
     (DummyDetector_init\<lparr>shared_waypoints := Some [Point 0 0, Point 10 0, Point 20 0, Point 30 0],
        shared_stop_lines := Some [0, 0, 2]\<rparr>, None)"
    by (simp add: waypoints_cb_def get_closest_waypoint_def DummyDetector_init_def
      distance_less_iff sys_maxint_def distance_def)
  show ?thesis
    using waypoints_cb_stop_lines_sorted [OF _ r] r by simp
qed

text \<open>
  C6 as stated fails: on a route of one waypoint, two configured stop-line positions are
  both bound to index 0, and the stored list holds that index twice.
\<close>

theorem stop_lines_not_deduplicated:
  "snd (waypoints_cb DummyDetector_init [Point 0 0] [Point 1 0, Point 2 0]) = None \<and>
   shared_stop_lines (fst (waypoints_cb DummyDetector_init [Point 0 0] [Point 1 0, Point 2 0])) =
     Some [0, 0] \<and>
   \<not> distinct [0, 0 :: int]"
  by (simp add: waypoints_cb_def get_closest_waypoint_def DummyDetector_init_def
      distance_less_iff sys_maxint_def)

section \<open>Pose updates\<close>

lemma py_index_in_range:
  "0 \<le> i \<Longrightarrow> i < int (length xs) \<Longrightarrow> py_index xs i = Inr (xs ! nat i)"
  by (simp add: py_index_def)

lemma py_index_last: "xs \<noteq> [] \<Longrightarrow> py_index xs (- 1) = Inr (last xs)"
  by (cases xs rule: rev_cases) (simp_all add: py_index_def)

lemma py_index_empty: "py_index [] i = Inl IndexError"
  by (simp add: py_index_def)

lemma pose_scan_descent:
  "0 \<le> c \<Longrightarrow> c < int (length wps) \<Longrightarrow> d = distance p (wps ! nat c) \<Longrightarrow>
   \<exists>j. pose_scan p wps [c + 1..int (length wps) - 1] d c = (j, None) \<and> c \<le> j \<and>
       j < int (length wps) \<and>
       (\<forall>k. c \<le> k \<and> k < j \<longrightarrow> distance p (wps ! nat (k + 1)) \<le> distance p (wps ! nat k)) \<and>
       (j + 1 < int (length wps) \<longrightarrow>
          distance p (wps ! nat (j + 1)) > distance p (wps ! nat j))"
proof (induction "nat (int (length wps) - c)" arbitrary: c d)
  case 0
  then show ?case by simp
next
  case (Suc n)
  show ?case
  proof (cases "c + 1 \<le> int (length wps) - 1")
    case False
    then have "[c + 1..int (length wps) - 1] = []" by simp
    then show ?thesis using Suc.prems False by simp
  next
    case True
    then have l: "[c + 1..int (length wps) - 1] = (c + 1) # [c + 1 + 1..int (length wps) - 1]"
      by (simp add: upto_rec1)
    have ix: "py_index wps (c + 1) = Inr (wps ! nat (c + 1))"
      using True Suc.prems by (intro py_index_in_range) simp_all
    show ?thesis
    proof (cases "distance p (wps ! nat (c + 1)) > d")
      case True
      then show ?thesis using l ix Suc.prems by auto
    next
      case False
      have n: "n = nat (int (length wps) - (c + 1))" using Suc.hyps(2) by simp
      have "\<exists>j. pose_scan p wps [c + 1 + 1..int (length wps) - 1] (distance p (wps ! nat (c + 1))) (c + 1) = (j, None) \<and> c + 1 \<le> j \<and>
       j < int (length wps) \<and>
       (\<forall>k. c + 1 \<le> k \<and> k < j \<longrightarrow> distance p (wps ! nat (k + 1)) \<le> distance p (wps ! nat k)) \<and>
       (j + 1 < int (length wps) \<longrightarrow>
          distance p (wps ! nat (j + 1)) > distance p (wps ! nat j))"
        using Suc.prems True by (intro Suc.hyps(1) n) simp_all
      then obtain j where j: "pose_scan p wps [c + 1 + 1..int (length wps) - 1] (distance p (wps ! nat (c + 1))) (c + 1) = (j, None)"
        "c + 1 \<le> j" "j < int (length wps)"
        "\<forall>k. c + 1 \<le> k \<and> k < j \<longrightarrow> distance p (wps ! nat (k + 1)) \<le> distance p (wps ! nat k)"
        "j + 1 < int (length wps) \<longrightarrow> distance p (wps ! nat (j + 1)) > distance p (wps ! nat j)"
        by blast
      have run: "pose_scan p wps [c + 1..int (length wps) - 1] d c = (j, None)"
        using l ix False j(1) by simp
      have chain: "\<forall>k. c \<le> k \<and> k < j \<longrightarrow> distance p (wps ! nat (k + 1)) \<le> distance p (wps ! nat k)"
      proof (intro allI impI)
        fix k assume k: "c \<le> k \<and> k < j"
        show "distance p (wps ! nat (k + 1)) \<le> distance p (wps ! nat k)"
        proof (cases "k = c")
          case True
          then show ?thesis using False Suc.prems(3) by simp
        next
          case False
          then show ?thesis using k j(4) by simp
        qed
      qed
      show ?thesis using run j(2,3,5) chain by auto
    qed
  qed
qed

lemma pose_scan_ge:
  "sorted is \<Longrightarrow> \<forall>i\<in>set is. c \<le> i \<Longrightarrow> c \<le> fst (pose_scan p wps is d c)"
proof (induction "is" arbitrary: c d)
  case Nil
  then show ?case by simp
next
  case (Cons i rest)
  have "i \<le> fst (pose_scan p wps rest d' i)" for d'
    using Cons.prems by (intro Cons.IH) auto
  moreover have "c \<le> i" using Cons.prems by simp
  ultimately have "c \<le> fst (pose_scan p wps rest d' i)" for d'
    by (meson order_trans)
  then show ?case by (simp add: Let_def split: sum.splits)
qed

text \<open>
  C4. On a loaded route, let \<open>start\<close> be the stored car index, or 0 when it is
  undefined or above the last stop line. A pose update ends with the car index at the
  first \<open>j\<close> from \<open>start\<close> on whose successor is farther from the pose than \<open>j\<close>
  itself (or at the last waypoint): the distances do not increase along
  \<open>start, ..., j\<close>, and the waypoint after \<open>j\<close>, if any, is strictly farther.
\<close>

theorem pose_cb_local_descent:
  assumes "shared_waypoints self = Some wps" and "shared_stop_lines self = Some sl" and "sl \<noteq> []"
    and "start = (case shared_car_index self of None \<Rightarrow> 0
                  | Some car \<Rightarrow> if car > last sl then 0 else car)"
    and "0 \<le> start" and "start < int (length wps)"
  shows "\<exists>j. pose_cb self position = (self\<lparr>shared_car_index := Some j\<rparr>, None) \<and>
             start \<le> j \<and> j < int (length wps) \<and>
             (\<forall>k. start \<le> k \<and> k < j \<longrightarrow>
                  distance position (wps ! nat (k + 1)) \<le> distance position (wps ! nat k)) \<and>
             (j + 1 < int (length wps) \<longrightarrow>
                  distance position (wps ! nat (j + 1)) > distance position (wps ! nat j))"
proof -
  have ps: "pose_start self = Inr start"
    using assms(2,3,4) by (simp add: pose_start_def py_index_last split: option.splits)
  have ix: "py_index wps start = Inr (wps ! nat start)"
    using assms(5,6) by (rule py_index_in_range)
  from pose_scan_descent [OF assms(5,6) refl, of position] obtain j where
    j: "pose_scan position wps [start + 1..int (length wps) - 1]
          (distance position (wps ! nat start)) start = (j, None)"
      "start \<le> j" "j < int (length wps)"
      "\<forall>k. start \<le> k \<and> k < j \<longrightarrow>
          distance position (wps ! nat (k + 1)) \<le> distance position (wps ! nat k)"
      "j + 1 < int (length wps) \<longrightarrow>
          distance position (wps ! nat (j + 1)) > distance position (wps ! nat j)"
    by blast
  have "pose_cb self position = (self\<lparr>shared_car_index := Some j\<rparr>, None)"
    using assms(1) ps ix j(1) by (simp add: pose_cb_def py_range_def)
  then show ?thesis using j(2-5) by blast
qed

theorem pose_cb_local_descent_witness:
  "pose_cb (DummyDetector_init\<lparr>shared_car_index := Some 0,
        shared_waypoints := Some [Point 0 0, Point 10 0, Point 20 0, Point 30 0],
        shared_stop_lines := Some [2]\<rparr>) (Point 12 0) =
     (DummyDetector_init\<lparr>shared_car_index := Some 1,
        shared_waypoints := Some [Point 0 0, Point 10 0, Point 20 0, Point 30 0],
        shared_stop_lines := Some [2]\<rparr>, None)"
  using pose_cb_local_descent [of "DummyDetector_init\<lparr>shared_car_index := Some 0,
        shared_waypoints := Some [Point 0 0, Point 10 0, Point 20 0, Point 30 0],
        shared_stop_lines := Some [2]\<rparr>" "[Point 0 0, Point 10 0, Point 20 0, Point 30 0]" "[2]" 0 "Point 12 0"]
  by (simp add: pose_cb_def pose_start_def py_index_def py_range_def distance_def
      DummyDetector_init_def upto.simps)

lemma pose_cb_car_index_mono:
  assumes "shared_car_index self = Some c"
  shows "(\<exists>c'. shared_car_index (fst (pose_cb self position)) = Some c' \<and>
            (c \<le> c' \<or>
             shared_waypoints self \<noteq> None \<and>
             (\<exists>sl. shared_stop_lines self = Some sl \<and> sl \<noteq> [] \<and> last sl < c) \<and> 0 \<le> c'))"
proof (cases "shared_waypoints self")
  case None
  then show ?thesis using assms by (simp add: pose_cb_def)
next
  case (Some wps)
  show ?thesis
  proof (cases "pose_start self")
    case (Inl e)
    then show ?thesis using assms Some by (simp add: pose_cb_def)
  next
    case (Inr start)
    have mono: "start \<le> fst (pose_scan position wps (py_range (start + 1) (int (length wps))) d start)" for d
      by (intro pose_scan_ge) (simp_all add: py_range_def)
    have car: "\<exists>c'. shared_car_index (fst (pose_cb self position)) = Some c' \<and> start \<le> c'"
      using Some Inr mono by (auto simp: pose_cb_def split_beta Let_def split: sum.splits)
    obtain sl where sl: "shared_stop_lines self = Some sl"
      using Inr assms by (cases "shared_stop_lines self") (simp_all add: pose_start_def)
    have ne: "sl \<noteq> []"
      using Inr assms sl by (auto simp: pose_start_def py_index_empty)
    have st: "start = (if c > last sl then 0 else c)"
      using Inr assms sl ne by (simp add: pose_start_def py_index_last)
    show ?thesis
    proof (cases "c > last sl")
      case True
      then show ?thesis using car sl ne st Some by auto
    next
      case False
      then show ?thesis using car st by auto
    qed
  qed
qed

lemma traffic_bind_bound:
  "shared_traffic_lights self \<noteq> None \<Longrightarrow>
   shared_traffic_lights (fst (traffic_bind self ls)) \<noteq> None \<and>
   shared_car_index (fst (traffic_bind self ls)) = shared_car_index self \<and>
   shared_waypoints (fst (traffic_bind self ls)) = shared_waypoints self"
  by (induction ls arbitrary: self) (auto simp: Let_def split: sum.splits)

lemma traffic_cb_car_index:
  "shared_car_index (fst (traffic_cb d lights)) = shared_car_index d \<and>
   shared_waypoints (fst (traffic_cb d lights)) = shared_waypoints d"
proof (cases "shared_waypoints d")
  case None
  then show ?thesis by (simp add: traffic_cb_def)
next
  case (Some wps)
  show ?thesis
  proof (cases "shared_traffic_lights d")
    case None
    then show ?thesis
      using Some traffic_bind_bound [of "d\<lparr>shared_traffic_lights := Some []\<rparr>" lights]
      by (simp add: traffic_cb_def)
  next
    case (Some bound)
    then show ?thesis using \<open>shared_waypoints d = Some wps\<close>
      by (simp add: traffic_cb_def split_beta)
  qed
qed

lemma loop_iteration_car_index:
  "loop_iteration gtls self = Inr (self', pub) \<Longrightarrow> shared_car_index self' = shared_car_index self"
  by (auto simp: loop_iteration_def loop_body_def Let_def split: sum.splits option.splits if_splits)

text \<open>
  C5. A pose update never lowers a defined car index \<open>c\<close>, except when a route is loaded
  and \<open>c\<close> is above the last stop line: then the scan restarts from 0. The other
  operations on a fixed route (a loop iteration, a light-array message, a camera frame)
  leave the car index as it is. Only a route message, which loads a new route, makes it
  undefined.
\<close>

theorem car_index_never_decreases:
  assumes "shared_car_index self = Some c"
  shows "(\<exists>c'. shared_car_index (fst (pose_cb self position)) = Some c' \<and>
            (c \<le> c' \<or>
             shared_waypoints self \<noteq> None \<and>
             (\<exists>sl. shared_stop_lines self = Some sl \<and> sl \<noteq> [] \<and> last sl < c) \<and> 0 \<le> c')) \<and>
         (\<forall>self' pub. loop_iteration gtls self = Inr (self', pub) \<longrightarrow>
            shared_car_index self' = Some c) \<and>
         (shared_car_index d = Some c \<longrightarrow>
            shared_car_index (fst (traffic_cb d lights)) = Some c) \<and>
         (shared_car_index im = Some c \<longrightarrow> shared_car_index (image_cb im msg) = Some c)"
proof -
  have "\<exists>c'. shared_car_index (fst (pose_cb self position)) = Some c' \<and>
            (c \<le> c' \<or>
             shared_waypoints self \<noteq> None \<and>
             (\<exists>sl. shared_stop_lines self = Some sl \<and> sl \<noteq> [] \<and> last sl < c) \<and> 0 \<le> c')"
    using assms by (rule pose_cb_car_index_mono)
  moreover have "\<forall>self' pub. loop_iteration gtls self = Inr (self', pub) \<longrightarrow>
            shared_car_index self' = Some c"
    using assms by (auto dest: loop_iteration_car_index)
  moreover have "shared_car_index d = Some c \<longrightarrow>
            shared_car_index (fst (traffic_cb d lights)) = Some c"
    by (simp add: traffic_cb_car_index)
  moreover have "shared_car_index im = Some c \<longrightarrow> shared_car_index (image_cb im msg) = Some c"
    by (simp add: image_cb_def)
  ultimately show ?thesis by blast
qed

theorem car_index_never_decreases_witness:
  "shared_car_index (fst (pose_cb (DummyDetector_init\<lparr>shared_car_index := Some 1,
        shared_waypoints := Some [Point 0 0, Point 10 0, Point 20 0, Point 30 0],
        shared_stop_lines := Some [2]\<rparr>) (Point 28 0))) = Some 3 \<and>
   shared_car_index (fst (pose_cb (DummyDetector_init\<lparr>shared_car_index := Some 3,
        shared_waypoints := Some [Point 0 0, Point 10 0, Point 20 0, Point 30 0],
        shared_stop_lines := Some [2]\<rparr>) (Point 1 0))) = Some 0 \<and>
   shared_car_index (fst (traffic_cb (DummyDetector_init\<lparr>shared_car_index := Some 1\<rparr>) [])) = Some 1 \<and>
   shared_car_index (image_cb ((ImageDetector_init :: nat ImageDetector)\<lparr>shared_car_index := Some 1\<rparr>) 7)
     = Some 1"
  using car_index_never_decreases [of "DummyDetector_init\<lparr>shared_car_index := Some 1,
        shared_waypoints := Some [Point 0 0, Point 10 0, Point 20 0, Point 30 0],
        shared_stop_lines := Some [2]\<rparr>" 1 "Point 28 0" dummy_get_traffic_light_state
        "DummyDetector_init\<lparr>shared_car_index := Some 1\<rparr>" "[]"
        "(ImageDetector_init :: nat ImageDetector)\<lparr>shared_car_index := Some 1\<rparr>" 7]
    car_index_never_decreases [of "DummyDetector_init\<lparr>shared_car_index := Some 3,
        shared_waypoints := Some [Point 0 0, Point 10 0, Point 20 0, Point 30 0],
        shared_stop_lines := Some [2]\<rparr>" 3 "Point 1 0" dummy_get_traffic_light_state
        "DummyDetector_init\<lparr>shared_car_index := Some 3\<rparr>" "[]"
        "(ImageDetector_init :: nat ImageDetector)\<lparr>shared_car_index := Some 3\<rparr>" 7]
  by (simp add: pose_cb_def pose_start_def py_index_def py_range_def distance_def
      DummyDetector_init_def ImageDetector_init_def upto.simps traffic_cb_def image_cb_def)

section \<open>Binding lights to waypoints\<close>

text \<open>
  What a completed run of the binding loop stores: as maps, the bindings and \<open>tl_map\<close>
  are the entries of the message in its order, a later light replacing an earlier one at
  the same key or index.
\<close>

lemma traffic_bind_result:
  "traffic_bind self ls = (self', None) \<Longrightarrow> shared_traffic_lights self = Some b \<Longrightarrow>
   \<exists>idxs b' m'.
      map (\<lambda>l. get_closest_waypoint self (light_position l)) ls = map Inr idxs \<and>
      self' = self\<lparr>shared_traffic_lights := Some b', tl_map := m'\<rparr> \<and>
      map_of b' = map_of b ++
        map_of (rev (map2 (\<lambda>l i. (get_light_point l, LightData i (light_state l))) ls idxs)) \<and>
      map_of m' = map_of (tl_map self) ++
        map_of (rev (map2 (\<lambda>l i. (i, get_light_point l)) ls idxs))"
proof (induction ls arbitrary: self b)
  case Nil
  have "self = self\<lparr>shared_traffic_lights := Some b, tl_map := tl_map self\<rparr>"
    using Nil.prems(2) by simp
  then have "self' = self\<lparr>shared_traffic_lights := Some b, tl_map := tl_map self\<rparr>"
    using Nil.prems(1) by simp
  then show ?case by (intro exI [of _ "[]"] exI [of _ b] exI [of _ "tl_map self"]) simp
next
  case (Cons l ls)
  from Cons.prems(1) obtain i where i: "get_closest_waypoint self (light_position l) = Inr i"
    by (cases "get_closest_waypoint self (light_position l)") (simp_all add: Let_def)
  let ?b1 = "AList.update (get_light_point l) (LightData i (light_state l)) b"
  let ?m1 = "AList.update i (get_light_point l) (tl_map self)"
  let ?s = "self\<lparr>shared_traffic_lights := Some ?b1, tl_map := ?m1\<rparr>"
  have run: "traffic_bind ?s ls = (self', None)"
    using Cons.prems i by (simp add: Let_def)
  have "shared_traffic_lights ?s = Some ?b1" by simp
  from Cons.IH [OF run this] obtain idxs b' m' where
    a: "map (\<lambda>l. get_closest_waypoint ?s (light_position l)) ls = map Inr idxs" and
    s': "self' = ?s\<lparr>shared_traffic_lights := Some b', tl_map := m'\<rparr>" and
    mb: "map_of b' = map_of ?b1 ++
        map_of (rev (map2 (\<lambda>l i. (get_light_point l, LightData i (light_state l))) ls idxs))" and
    mm: "map_of m' = map_of (tl_map ?s) ++
        map_of (rev (map2 (\<lambda>l i. (i, get_light_point l)) ls idxs))"
    by blast
  have same: "get_closest_waypoint ?s = get_closest_waypoint self"
    by (rule get_closest_waypoint_cong) simp
  have 1: "map (\<lambda>l. get_closest_waypoint self (light_position l)) (l # ls) = map Inr (i # idxs)"
    using a i by (simp add: same)
  have 2: "self' = self\<lparr>shared_traffic_lights := Some b', tl_map := m'\<rparr>"
    using s' by simp
  have 3: "map_of b' = map_of b ++
        map_of (rev (map2 (\<lambda>l i. (get_light_point l, LightData i (light_state l))) (l # ls) (i # idxs)))"
    unfolding mb by (rule ext) (simp add: update_conv' map_add_def split: option.splits)
  have 4: "map_of m' = map_of (tl_map self) ++
        map_of (rev (map2 (\<lambda>l i. (i, get_light_point l)) (l # ls) (i # idxs)))"
    unfolding mm by (rule ext) (simp add: update_conv' map_add_def split: option.splits)
  show ?case using 1 2 3 4 by blast
qed

text \<open>
  An index returned for a non-empty route is a waypoint index of that route, so the keys
  that a completed first build puts into \<open>tl_map\<close> are waypoint indices of the route it
  was built on.
\<close>

lemma closest_scan_range:
  "closest_scan ws p i d ci = Some j \<Longrightarrow> ci = Some j \<or> (i \<le> j \<and> j < i + int (length ws))"
proof (induction ws arbitrary: i d ci)
  case Nil
  then show ?case by simp
next
  case (Cons w ws)
  show ?case
  proof (cases "distance w p < d")
    case True
    then have "closest_scan ws p (i + 1) (distance w p) (Some i) = Some j"
      using Cons.prems by simp
    from Cons.IH [OF this] show ?thesis by auto
  next
    case False
    then have "closest_scan ws p (i + 1) d ci = Some j"
      using Cons.prems by simp
    from Cons.IH [OF this] show ?thesis by auto
  qed
qed

lemma get_closest_waypoint_in_range:
  "get_closest_waypoint self p = Inr j \<Longrightarrow> shared_waypoints self = Some wps \<Longrightarrow> wps \<noteq> [] \<Longrightarrow>
   0 \<le> j \<and> j < int (length wps)"
  using closest_scan_range [of wps p 0 sys_maxint None j]
  by (auto simp: get_closest_waypoint_def split: option.splits)

lemma traffic_cb_binds_route_indices:
  assumes "shared_waypoints self = Some wps" and "wps \<noteq> []"
    and "shared_traffic_lights self = None" and "tl_map self = []"
    and "traffic_cb self lights = (self', None)"
  shows "\<forall>t\<in>fst ` set (tl_map self'). 0 \<le> t \<and> t < int (length wps)"
proof -
  let ?s = "self\<lparr>shared_traffic_lights := Some []\<rparr>"
  have run: "traffic_bind ?s lights = (self', None)"
    using assms(1,3,5) by (simp add: traffic_cb_def)
  have "shared_traffic_lights ?s = Some []" by simp
  from traffic_bind_result [OF run this] obtain idxs b' m' where
    a: "map (\<lambda>l. get_closest_waypoint ?s (light_position l)) lights = map Inr idxs" and
    s': "self' = ?s\<lparr>shared_traffic_lights := Some b', tl_map := m'\<rparr>" and
    mm: "map_of m' = map_of (tl_map ?s) ++
        map_of (rev (map2 (\<lambda>l i. (i, get_light_point l)) lights idxs))"
    by blast
  have len: "length idxs = length lights" using a by (metis length_map)
  have rng: "0 \<le> i \<and> i < int (length wps)" if "i \<in> set idxs" for i
  proof -
    from that obtain n where n: "n < length idxs" "idxs ! n = i"
      by (auto simp: in_set_conv_nth)
    have "map (\<lambda>l. get_closest_waypoint ?s (light_position l)) lights ! n = map Inr idxs ! n"
      using a by simp
    then have "get_closest_waypoint ?s (light_position (lights ! n)) = Inr i"
      using n len by simp
    moreover have "shared_waypoints ?s = Some wps" using assms(1) by simp
    ultimately show ?thesis using assms(2) by (rule get_closest_waypoint_in_range)
  qed
  have "fst ` set m' = dom (map_of m')" by (simp add: dom_map_of_conv_image_fst)
  also have "\<dots> = fst ` set (map2 (\<lambda>l i. (i, get_light_point l)) lights idxs)"
    using assms(4) by (simp add: mm dom_map_of_conv_image_fst)
  also have "\<dots> \<subseteq> set idxs"
    by (auto dest: set_zip_rightD)
  finally have "fst ` set m' \<subseteq> set idxs" .
  then show ?thesis using s' rng by auto
qed

section \<open>The ground-truth light state\<close>






section \<open>Light-array messages\<close>








section \<open>No data\<close>

text \<open>
  C9. Without a route a pose update returns the detector as it is, with no exception;
  with an undefined car index no stop line is reported and a loop iteration publishes
  nothing and changes nothing; without a camera frame the image variant, and without
  bindings the ground-truth variant, report UNKNOWN. The condition "no route, car index
  undefined" holds for both initial detectors and is kept by pose updates, loop
  iterations, light-array messages, camera frames and route messages under an empty
  stop-line configuration, so no event is published while it lasts.
\<close>

theorem no_data_is_neutral:
  "(shared_waypoints self = None \<longrightarrow> pose_cb self position = (self, None)) \<and>
   (shared_car_index self = None \<longrightarrow>
      get_stop_line self = Inr None \<and> loop_iteration gtls self = Inr (self, None)) \<and>
   (shared_camera_image im = None \<longrightarrow> image_get_traffic_light_state classify im = Inr UNKNOWN) \<and>
   (shared_traffic_lights d = None \<longrightarrow> dummy_get_traffic_light_state d = Inr UNKNOWN) \<and>
   (shared_waypoints d = None \<longrightarrow> traffic_cb d lights = (d, None)) \<and>
   (shared_waypoints im = None \<and> shared_car_index im = None \<longrightarrow>
      shared_waypoints (image_cb im msg) = None \<and> shared_car_index (image_cb im msg) = None) \<and>
   (shared_waypoints self = None \<longrightarrow>
      waypoints_cb self waypoints [] = (self\<lparr>shared_car_index := None\<rparr>, None))"
  by (simp add: pose_cb_def get_stop_line_def loop_iteration_def image_get_traffic_light_state_def
      dummy_get_traffic_light_state_def traffic_cb_def image_cb_def waypoints_cb_def)

theorem no_data_is_neutral_witness:
  "pose_cb DummyDetector_init (Point 1 2) = (DummyDetector_init, None) \<and>
   get_stop_line DummyDetector_init = Inr None \<and>
   loop_iteration dummy_get_traffic_light_state DummyDetector_init = Inr (DummyDetector_init, None) \<and>
   image_get_traffic_light_state (\<lambda>img. RED) (ImageDetector_init :: nat ImageDetector) = Inr UNKNOWN \<and>
   dummy_get_traffic_light_state DummyDetector_init = Inr UNKNOWN \<and>
   traffic_cb DummyDetector_init [\<lparr>light_position = Point 3 4, light_state = RED\<rparr>] =
     (DummyDetector_init, None) \<and>
   shared_car_index (image_cb (ImageDetector_init :: nat ImageDetector) 7) = None \<and>
   waypoints_cb DummyDetector_init [Point 0 0] [] = (DummyDetector_init, None)"
  using no_data_is_neutral [of DummyDetector_init "Point 1 2" dummy_get_traffic_light_state
      "ImageDetector_init :: nat ImageDetector" "\<lambda>img. RED" DummyDetector_init
      "[\<lparr>light_position = Point 3 4, light_state = RED\<rparr>]" 7 "[Point 0 0]"]
  by (simp add: DummyDetector_init_def ImageDetector_init_def)

end
